theory Spec2Isabelle
  imports Main "HOL-Library.Word"
begin

section \<open>The platform: system calls, errno, observable events\<close>

text \<open>
  A system call either succeeds with a value or fails, in which case the C function
  returns \<open>-1\<close> and stores an error number in \<open>errno\<close>. A successful call leaves
  \<open>errno\<close> as it was.
\<close>

datatype 'a sysret = Ok 'a | Err nat

text \<open>\<open>struct can_frame\<close> of \<open>linux/can.h\<close>: identifier, length code, payload bytes.\<close>

record can_frame =
  can_id :: "32 word"
  can_dlc :: "8 word"
  data :: "8 word list"

text \<open>\<open>CAN_MAX_DLEN\<close> and \<open>sizeof(struct can_frame)\<close>, both from \<open>linux/can.h\<close>.\<close>

definition CAN_MAX_DLEN :: nat where
  "CAN_MAX_DLEN = 8"

definition sizeof_can_frame :: int where
  "sizeof_can_frame = 16"

text \<open>
  Everything the connector does to the outside world is recorded, in order: system calls
  with their arguments, thread operations, invocations of the three registered callbacks,
  and lines written to standard output.
\<close>

datatype thread_id = Read_thread | Dbus_thread

datatype event =
    Sys_socket
  | Sys_ioctl int string
  | Sys_bind int nat
  | Sys_close int
  | Sys_write int can_frame
  | Sys_select int
  | Sys_read int
  | Thread_start thread_id
  | Thread_join thread_id
  | MessageCallback "32 word" "8 word list"
  | StatusCallback bool
  | ErrorCallback string
  | Stdout string
  | Stderr string
  | Bus_call string
  | Bus_signal string "32 word" "8 word list" "64 word"

text \<open>The calling thread's view of the process: its \<open>errno\<close> and what it has done so far.\<close>

record world =
  errno :: nat
  trace :: "event list"

text \<open>
  The answers of the operating system and of the C library during one operation. The
  interface-index lookup answers with the index it stores into \<open>ifr_ifindex\<close>; a write
  answers with the number of bytes written. \<open>thread_create\<close> tells whether
  \<open>std::thread\<close>'s constructor can start a thread (it throws \<open>std::system_error\<close>
  otherwise).
\<close>

record env =
  sys_socket :: "nat sysret"
  sys_ioctl :: "int \<Rightarrow> string \<Rightarrow> nat sysret"
  sys_bind :: "int \<Rightarrow> nat \<Rightarrow> unit sysret"
  sys_close :: "int \<Rightarrow> unit sysret"
  sys_write :: "int \<Rightarrow> can_frame \<Rightarrow> nat sysret"
  strerror :: "nat \<Rightarrow> string"
  thread_create :: bool

definition emit :: "event \<Rightarrow> world \<Rightarrow> world" where
  "emit ev w = w\<lparr>trace := trace w @ [ev]\<rparr>"

definition syscall :: "event \<Rightarrow> 'a sysret \<Rightarrow> world \<Rightarrow> world" where
  "syscall ev r w =
     w\<lparr>errno := (case r of Err e \<Rightarrow> e | Ok _ \<Rightarrow> errno w), trace := trace w @ [ev]\<rparr>"

text \<open>The C return value of a call that answers with a count or a descriptor.\<close>

definition retval :: "nat sysret \<Rightarrow> int" where
  "retval r = (case r of Ok n \<Rightarrow> int n | Err _ \<Rightarrow> - 1)"

text \<open>The C return value of a call that answers \<open>0\<close> on success.\<close>

definition retcode :: "'a sysret \<Rightarrow> int" where
  "retcode r = (case r of Ok _ \<Rightarrow> 0 | Err _ \<Rightarrow> - 1)"

subsection \<open>Text formatting\<close>

text \<open>\<open>std::to_string\<close> on an unsigned value: decimal digits, no padding.\<close>

fun to_string :: "nat \<Rightarrow> string" where
  "to_string n =
     (if n < 10 then [''0123456789'' ! n]
      else to_string (n div 10) @ [''0123456789'' ! (n mod 10)])"

declare to_string.simps [simp del]

text \<open>\<open>std::hex\<close> on an unsigned value: lower-case digits, no padding.\<close>

fun to_hex :: "nat \<Rightarrow> string" where
  "to_hex n =
     (if n < 16 then [''0123456789abcdef'' ! n]
      else to_hex (n div 16) @ [''0123456789abcdef'' ! (n mod 16)])"

declare to_hex.simps [simp del]

text \<open>\<open>printf("%02X ", byte)\<close>: two upper-case digits and a blank.\<close>

definition printf_02X :: "8 word \<Rightarrow> string" where
  "printf_02X b =
     [''0123456789ABCDEF'' ! (unat b div 16), ''0123456789ABCDEF'' ! (unat b mod 16), CHR '' '']"

section \<open>CANConnector\<close>

text \<open>
  The members of the class. A callback member is modelled by whether a function has been
  registered; calling it is an event, and a registered callback is assumed to return
  normally. \<open>m_readThread\<close> is \<open>None\<close> for a null pointer and \<open>Some j\<close> for a thread
  object that is joinable exactly when \<open>j\<close> holds. Of \<open>m_ifr\<close> and \<open>m_addr\<close> the fields
  the code assigns are kept. In the class \<open>m_ifr\<close> is followed by the three callback
  members. The model is sequential: \<open>m_socketMutex\<close>, which serialises a write with the reader's
  read, has no counterpart in it.
\<close>

record connector =
  m_interfaceName :: string
  m_socket :: int
  m_connected :: bool
  m_shouldStop :: bool
  m_ifr_name :: string
  m_ifr_ifindex :: nat
  m_addr_can_family :: nat
  m_addr_can_ifindex :: nat
  m_messageCallback :: bool
  m_statusCallback :: bool
  m_errorCallback :: bool
  m_readThread :: "bool option"

text \<open>
  Exceptions and aborts that leave a member function other than by \<open>return\<close>.
  \<open>Buffer_overflow\<close> stands for a write past the end of an array: from that point on the
  behaviour of the program is undefined, and the model says nothing more about it.
\<close>

datatype exn =
    System_error
  | Std_terminate
  | Std_exception string
  | Buffer_overflow

text \<open>\<open>IFNAMSIZ\<close> of \<open>net/if.h\<close>: the size of \<open>ifr_name\<close>, terminating zero included.\<close>

definition IFNAMSIZ :: nat where
  "IFNAMSIZ = 16"

text \<open>The characters \<open>strcpy\<close> copies from \<open>c_str()\<close>: those before the first zero byte.\<close>

definition c_str :: "string \<Rightarrow> string" where
  "c_str s = takeWhile (\<lambda>ch. ch \<noteq> CHR 0x00) s"

definition AF_CAN :: nat where
  "AF_CAN = 29"

definition CANConnector :: "string \<Rightarrow> connector" where
  "CANConnector interfaceName =
     \<lparr>m_interfaceName = interfaceName, m_socket = - 1, m_connected = False,
      m_shouldStop = False, m_ifr_name = [], m_ifr_ifindex = 0,
      m_addr_can_family = 0, m_addr_can_ifindex = 0,
      m_messageCallback = False, m_statusCallback = False, m_errorCallback = False,
      m_readThread = None\<rparr>"

definition setMessageCallback :: "connector \<Rightarrow> connector" where
  "setMessageCallback c = c\<lparr>m_messageCallback := True\<rparr>"

definition setStatusCallback :: "connector \<Rightarrow> connector" where
  "setStatusCallback c = c\<lparr>m_statusCallback := True\<rparr>"

definition setErrorCallback :: "connector \<Rightarrow> connector" where
  "setErrorCallback c = c\<lparr>m_errorCallback := True\<rparr>"

definition isConnected :: "connector \<Rightarrow> bool" where
  "isConnected c = m_connected c"

definition interfaceName :: "connector \<Rightarrow> string" where
  "interfaceName c = m_interfaceName c"

definition error_cb :: "connector \<Rightarrow> string \<Rightarrow> world \<Rightarrow> world" where
  "error_cb c msg w = (if m_errorCallback c then emit (ErrorCallback msg) w else w)"

definition status_cb :: "connector \<Rightarrow> bool \<Rightarrow> world \<Rightarrow> world" where
  "status_cb c b w = (if m_statusCallback c then emit (StatusCallback b) w else w)"

text \<open>
  \<open>setupSocket\<close>. The \<open>strcpy\<close> into \<open>m_ifr.ifr_name\<close> is not bounded: it writes the
  characters of the name and a terminating zero into an array of \<open>IFNAMSIZ\<close> bytes, so a
  name of \<open>IFNAMSIZ\<close> or more characters is written past the end of the array.
\<close>

definition setupSocket :: "env \<Rightarrow> connector \<times> world \<Rightarrow> (exn + bool) \<times> connector \<times> world" where
  "setupSocket e cw =
     (let c = fst cw; w = snd cw;
          c1 = c\<lparr>m_socket := retval (sys_socket e)\<rparr>;
          w1 = syscall Sys_socket (sys_socket e) w
      in if m_socket c1 < 0 then (Inr False, c1, w1)
         else if IFNAMSIZ \<le> length (c_str (m_interfaceName c1)) then (Inl Buffer_overflow, c1, w1)
         else
           let c2 = c1\<lparr>m_ifr_name := c_str (m_interfaceName c1)\<rparr>;
               r2 = sys_ioctl e (m_socket c2) (m_ifr_name c2);
               w2 = syscall (Sys_ioctl (m_socket c2) (m_ifr_name c2)) r2 w1
           in if retcode r2 < 0 then
                (Inr False, c2\<lparr>m_socket := - 1\<rparr>,
                 syscall (Sys_close (m_socket c2)) (sys_close e (m_socket c2)) w2)
              else
                let c3 = c2\<lparr>m_ifr_ifindex := (case r2 of Ok i \<Rightarrow> i | Err _ \<Rightarrow> m_ifr_ifindex c2)\<rparr>;
                    c4 = c3\<lparr>m_addr_can_family := AF_CAN, m_addr_can_ifindex := m_ifr_ifindex c3\<rparr>;
                    r3 = sys_bind e (m_socket c4) (m_addr_can_ifindex c4);
                    w3 = syscall (Sys_bind (m_socket c4) (m_addr_can_ifindex c4)) r3 w2
                in if retcode r3 < 0 then
                     (Inr False, c4\<lparr>m_socket := - 1\<rparr>,
                      syscall (Sys_close (m_socket c4)) (sys_close e (m_socket c4)) w3)
                   else (Inr True, c4, w3))"

definition cleanupSocket :: "env \<Rightarrow> connector \<times> world \<Rightarrow> connector \<times> world" where
  "cleanupSocket e cw =
     (let c = fst cw; w = snd cw
      in if 0 \<le> m_socket c then
           (c\<lparr>m_socket := - 1\<rparr>, syscall (Sys_close (m_socket c)) (sys_close e (m_socket c)) w)
         else (c, w))"

text \<open>
  \<open>connect\<close>. Assigning a new thread to \<open>m_readThread\<close> destroys the thread object held
  before; destroying a joinable \<open>std::thread\<close> calls \<open>std::terminate\<close>.
\<close>

definition connect :: "env \<Rightarrow> connector \<times> world \<Rightarrow> (exn + bool) \<times> connector \<times> world" where
  "connect e cw =
     (let c = fst cw; w = snd cw
      in if m_connected c then (Inr True, c, w)
         else
           case setupSocket e (c, w) of
             (Inl x, c1, w1) \<Rightarrow> (Inl x, c1, w1)
           | (Inr ok, c1, w1) \<Rightarrow>
               if \<not> ok then
                 (Inr False, c1, error_cb c1 (''Failed to setup CAN socket: '' @ strerror e (errno w1)) w1)
               else
                 let c2 = c1\<lparr>m_connected := True, m_shouldStop := False\<rparr>
                 in if \<not> thread_create e then (Inl System_error, c2, w1)
                    else if m_readThread c2 = Some True then (Inl Std_terminate, c2, w1)
                    else
                      let c3 = c2\<lparr>m_readThread := Some True\<rparr>;
                          w2 = emit (Thread_start Read_thread) w1;
                          w3 = status_cb c3 True w2;
                          w4 = emit (Stdout (''Connected to CAN interface: '' @ m_interfaceName c3)) w3
                      in (Inr True, c3, w4))"

definition disconnect :: "env \<Rightarrow> connector \<times> world \<Rightarrow> connector \<times> world" where
  "disconnect e cw =
     (let c = fst cw; w = snd cw
      in if \<not> m_connected c then (c, w)
         else
           let c1 = c\<lparr>m_shouldStop := True\<rparr>;
               (c2, w2) = (if m_readThread c1 = Some True
                           then (c1\<lparr>m_readThread := Some False\<rparr>, emit (Thread_join Read_thread) w)
                           else (c1, w));
               (c3, w3) = cleanupSocket e (c2, w2);
               c4 = c3\<lparr>m_connected := False\<rparr>;
               w4 = status_cb c4 False w3;
               w5 = emit (Stdout (''Disconnected from CAN interface: '' @ m_interfaceName c4)) w4
           in (c4, w5))"

definition sendMessage ::
  "env \<Rightarrow> 32 word \<Rightarrow> 8 word list \<Rightarrow> connector \<times> world \<Rightarrow> bool \<times> connector \<times> world" where
  "sendMessage e canId dat cw =
     (let c = fst cw; w = snd cw
      in if \<not> m_connected c \<or> m_socket c < 0 then
           (False, c, error_cb c ''CAN socket not connected'' w)
         else if length dat > CAN_MAX_DLEN then
           (False, c,
            error_cb c (''Data too large: '' @ to_string (length dat) @ '' bytes (max: ''
                        @ to_string CAN_MAX_DLEN @ '')'') w)
         else
           let frame = \<lparr>can_id = canId, can_dlc = of_nat (length dat), data = dat\<rparr>;
               r = sys_write e (m_socket c) frame;
               w1 = syscall (Sys_write (m_socket c) frame) r w;
               bytesWritten = retval r
           in if bytesWritten \<noteq> sizeof_can_frame then
                (False, c, error_cb c (''Failed to send CAN message: '' @ strerror e (errno w1)) w1)
              else
                (True, c,
                 emit (Stdout (''Sent CAN message - ID: 0x'' @ to_hex (unat canId) @ '' Data: ''
                               @ concat (map printf_02X dat))) w1))"

definition setInterfaceName ::
  "env \<Rightarrow> string \<Rightarrow> connector \<times> world \<Rightarrow> (exn + unit) \<times> connector \<times> world" where
  "setInterfaceName e name cw =
     (let c = fst cw; w = snd cw
      in if m_interfaceName c \<noteq> name then
           let wasConnected = m_connected c;
               (c1, w1) = (if wasConnected then disconnect e (c, w) else (c, w));
               c2 = c1\<lparr>m_interfaceName := name\<rparr>
           in if wasConnected then
                (case connect e (c2, w1) of
                   (Inl x, c3, w3) \<Rightarrow> (Inl x, c3, w3)
                 | (Inr _, c3, w3) \<Rightarrow> (Inr (), c3, w3))
              else (Inr (), c2, w1)
         else (Inr (), c, w))"

subsection \<open>The reader thread\<close>


datatype 'a loop = Continue 'a | Break 'a





section \<open>CANListener\<close>

text \<open>
  The members of the class. \<open>m_canConnector\<close> is created by the constructor and never
  reset, so it is kept as the connector itself. The three bus members are modelled by
  whether the pointer is non-null, the thread as for the connector.
\<close>

record listener =
  m_canConnector :: connector
  m_dbusConnection :: bool
  m_dbusObject :: bool
  m_dbusThread :: "bool option"

text \<open>
  A call into the bus library either returns or throws: \<open>sdbus::Error\<close>, or another
  exception derived from \<open>std::exception\<close>. The bus answers each call by its name.
\<close>

datatype bus_exn = Sdbus_error string | Other_exception string

type_synonym bus = "string \<Rightarrow> bus_exn option"

definition SERVICE_NAME :: string where
  "SERVICE_NAME = ''org.example.DMS.CAN''"

definition CANListener :: listener where
  "CANListener =
     \<lparr>m_canConnector =
        setErrorCallback (setStatusCallback (setMessageCallback (CANConnector ''vcan0''))),
      m_dbusConnection = False, m_dbusObject = False, m_dbusThread = None\<rparr>"

text \<open>Calls made one after another inside a \<open>try\<close> block: the first one that throws ends them.\<close>

fun bus_calls :: "bus \<Rightarrow> string list \<Rightarrow> world \<Rightarrow> bus_exn option \<times> world" where
  "bus_calls b [] w = (None, w)"
| "bus_calls b (n # ns) w =
     (case b n of
        Some x \<Rightarrow> (Some x, emit (Bus_call n) w)
      | None \<Rightarrow> bus_calls b ns (emit (Bus_call n) w))"

text \<open>The handler of \<open>setupDBusInterface\<close>: only \<open>sdbus::Error\<close> is caught.\<close>

definition setup_catch :: "bus_exn \<Rightarrow> listener \<times> world \<Rightarrow> (exn + unit) \<times> listener \<times> world" where
  "setup_catch x lw =
     (case x of
        Sdbus_error m \<Rightarrow> (Inr (), fst lw, emit (Stderr (''D-Bus setup error: '' @ m)) (snd lw))
      | Other_exception m \<Rightarrow> (Inl (Std_exception m), fst lw, snd lw))"

definition setupDBusInterface :: "env \<Rightarrow> bus \<Rightarrow> listener \<times> world \<Rightarrow> (exn + unit) \<times> listener \<times> world" where
  "setupDBusInterface e b lw =
     (let l = fst lw; w = snd lw
      in case bus_calls b [''createSessionBusConnection''] w of
           (Some x, w1) \<Rightarrow> setup_catch x (l, w1)
         | (None, w1) \<Rightarrow>
             (let l1 = l\<lparr>m_dbusConnection := True\<rparr>;
                  w2 = emit (Stdout ''[CAN Listener] Connected to SESSION bus'') w1
              in (case bus_calls b [''requestName'', ''createObject''] w2 of
                    (Some x, w3) \<Rightarrow> setup_catch x (l1, w3)
                  | (None, w3) \<Rightarrow>
                      (let l2 = l1\<lparr>m_dbusObject := True\<rparr>
                       in (case bus_calls b
                                  [''registerMethod SendCANMessage'', ''registerMethod GetStatus'',
                                   ''registerSignal CANMessageReceived'',
                                   ''registerSignal CANMessageSent'', ''finishRegistration''] w3 of
                             (Some x, w4) \<Rightarrow> setup_catch x (l2, w4)
                           | (None, w4) \<Rightarrow>
                               (let w5 = emit (Stdout (''[CAN Listener] D-Bus service ready: ''
                                                       @ SERVICE_NAME)) w4
                                in if \<not> thread_create e then (Inl System_error, l2, w5)
                                   else if m_dbusThread l2 = Some True then (Inl Std_terminate, l2, w5)
                                   else (Inr (), l2\<lparr>m_dbusThread := Some True\<rparr>,
                                         emit (Thread_start Dbus_thread) w5)))))))"

definition start :: "env \<Rightarrow> bus \<Rightarrow> listener \<times> world \<Rightarrow> (exn + unit) \<times> listener \<times> world" where
  "start e b lw =
     (let l = fst lw;
          w1 = emit (Stdout ''Starting CAN Listener service...'') (snd lw)
      in case setupDBusInterface e b (l, w1) of
           (Inl x, l2, w2) \<Rightarrow> (Inl x, l2, w2)
         | (Inr _, l2, w2) \<Rightarrow>
             (case connect e (m_canConnector l2, w2) of
                (Inl x, c3, w3) \<Rightarrow> (Inl x, l2\<lparr>m_canConnector := c3\<rparr>, w3)
              | (Inr ok, c3, w3) \<Rightarrow>
                  if \<not> ok then
                    (Inr (), l2\<lparr>m_canConnector := c3\<rparr>,
                     emit (Stderr ''Failed to connect to CAN interface'') w3)
                  else
                    (Inr (), l2\<lparr>m_canConnector := c3\<rparr>,
                     emit (Stdout ''CAN Listener service started successfully'') w3)))"

text \<open>
  One guarded teardown call of \<open>stop\<close>: the call is made, and either kind of exception is
  caught and reported with its own warning.
\<close>

definition guarded :: "bus \<Rightarrow> string \<Rightarrow> string \<Rightarrow> string \<Rightarrow> world \<Rightarrow> world" where
  "guarded b n warn_sdbus warn_std w =
     (let w1 = emit (Bus_call n) w
      in case b n of
           None \<Rightarrow> w1
         | Some (Sdbus_error m) \<Rightarrow> emit (Stderr (warn_sdbus @ m)) w1
         | Some (Other_exception m) \<Rightarrow> emit (Stderr (warn_std @ m)) w1)"

definition stop :: "env \<Rightarrow> bus \<Rightarrow> listener \<times> world \<Rightarrow> listener \<times> world" where
  "stop e b lw =
     (let l = fst lw;
          w1 = emit (Stdout ''Stopping CAN Listener service...'') (snd lw);
          (c2, w2) = disconnect e (m_canConnector l, w1);
          l2 = l\<lparr>m_canConnector := c2\<rparr>;
          (l6, w6) =
            (if m_dbusConnection l2 then
               let w3 = guarded b ''leaveEventLoop''
                          ''Warning: Failed to leave D-Bus event loop: ''
                          ''Warning: Exception leaving D-Bus event loop: '' w2;
                   (l4, w4) = (if m_dbusThread l2 = Some True
                               then (l2\<lparr>m_dbusThread := Some False\<rparr>, emit (Thread_join Dbus_thread) w3)
                               else (l2, w3));
                   w5 = guarded b ''releaseName''
                          ''Warning: Failed to release D-Bus name: ''
                          ''Warning: Exception while releasing D-Bus name: '' w4
               in (l4\<lparr>m_dbusObject := False, m_dbusConnection := False, m_dbusThread := None\<rparr>, w5)
             else (l2, w2))
      in (l6, emit (Stdout ''CAN Listener service stopped'') w6))"

text \<open>The two operations registered on the bus: the bodies of the two lambdas.\<close>

definition SendCANMessage ::
  "env \<Rightarrow> 32 word \<Rightarrow> 8 word list \<Rightarrow> listener \<times> world \<Rightarrow> bool \<times> listener \<times> world" where
  "SendCANMessage e canId dat lw =
     (case sendMessage e canId dat (m_canConnector (fst lw), snd lw) of
        (r, c', w') \<Rightarrow> (r, (fst lw)\<lparr>m_canConnector := c'\<rparr>, w'))"

definition GetStatus :: "listener \<Rightarrow> string" where
  "GetStatus l = (if isConnected (m_canConnector l) then ''Connected'' else ''Disconnected'')"

definition forwardCANMessageToECU :: "32 word \<Rightarrow> 8 word list \<Rightarrow> world \<Rightarrow> world" where
  "forwardCANMessageToECU canId dat w =
     (if canId \<ge> 0x100 \<and> canId \<le> 0x1FF then
        emit (Stdout (''Forwarding engine message to ECU - ID: 0x'' @ to_hex (unat canId))) w
      else if canId \<ge> 0x200 \<and> canId \<le> 0x2FF then
        emit (Stdout (''Forwarding transmission message to ECU - ID: 0x'' @ to_hex (unat canId))) w
      else w)"

text \<open>
  \<open>onCANMessageReceived\<close>, with the clock's reading as a parameter. Only \<open>sdbus::Error\<close>
  is caught around the emission; another exception leaves the function.
\<close>

definition onCANMessageReceived ::
  "bus \<Rightarrow> 64 word \<Rightarrow> 32 word \<Rightarrow> 8 word list \<Rightarrow> listener \<times> world \<Rightarrow> (exn + unit) \<times> listener \<times> world" where
  "onCANMessageReceived b timestamp canId dat lw =
     (let l = fst lw; w = snd lw;
          (thrown, w1) =
            (if m_dbusObject l then
               (case bus_calls b [''createSignal'', ''emitSignal''] w of
                  (None, w') \<Rightarrow>
                    (None,
                     emit (Stdout (''Emitted D-Bus signal CANMessageReceived with canId=0x''
                                   @ to_hex (unat canId)))
                       (emit (Bus_signal ''CANMessageReceived'' canId dat timestamp) w'))
                | (Some (Sdbus_error m), w') \<Rightarrow>
                    (None, emit (Stderr (''Error emitting CAN message signal: '' @ m)) w')
                | (Some (Other_exception m), w') \<Rightarrow> (Some (Std_exception m), w'))
             else (None, w))
      in case thrown of
           Some x \<Rightarrow> (Inl x, l, w1)
         | None \<Rightarrow>
             let w2 = forwardCANMessageToECU canId dat w1;
                 w3 = emit (Stdout (''CAN message received - ID: 0x'' @ to_hex (unat canId)
                                    @ '' Data: '' @ concat (map printf_02X dat))) w2
             in (Inr (), l, w3))"

subsection \<open>The process-wide instance\<close>

text \<open>
  \<open>CANListener::instance()\<close> keeps a function-local static pointer. The static storage is
  modelled by the pointer (an address, \<open>None\<close> for null) and by the lists of the listener
  objects constructed and destroyed so far; \<open>new\<close> hands out an address not used before.
\<close>

record statics =
  static_instance :: "nat option"
  constructed :: "nat list"
  destroyed :: "nat list"

definition statics0 :: statics where
  "statics0 = \<lparr>static_instance = None, constructed = [], destroyed = []\<rparr>"

definition reset_ptr :: "nat \<Rightarrow> statics \<Rightarrow> statics" where
  "reset_ptr p s =
     s\<lparr>static_instance := Some p,
       destroyed := (case static_instance s of None \<Rightarrow> destroyed s | Some q \<Rightarrow> destroyed s @ [q])\<rparr>"

definition new_listener :: "statics \<Rightarrow> nat \<times> statics" where
  "new_listener s = (Suc (length (constructed s)), s\<lparr>constructed := constructed s @ [Suc (length (constructed s))]\<rparr>)"

text \<open>One call of \<open>instance()\<close> that runs from entry to \<open>return\<close> with no other caller in between.\<close>

definition CANListener_instance :: "statics \<Rightarrow> nat option \<times> statics" where
  "CANListener_instance s =
     (let s1 = (if static_instance s = None
                then (case new_listener s of (p, s') \<Rightarrow> reset_ptr p s')
                else s)
      in (static_instance s1, s1))"

fun instance_calls :: "nat \<Rightarrow> statics \<Rightarrow> nat option list \<times> statics" where
  "instance_calls 0 s = ([], s)"
| "instance_calls (Suc n) s =
     (case CANListener_instance s of
        (r, s1) \<Rightarrow> (case instance_calls n s1 of (rs, s2) \<Rightarrow> (r # rs, s2)))"

text \<open>
  The same function with several callers at once: each caller is at one of the points of
  the body, and a schedule names the caller that takes the next step. The steps are the
  test of the pointer, the construction of a listener, the \<open>reset\<close>, and the final
  \<open>get\<close>.
\<close>

datatype pc = At_test | At_new | At_reset nat | At_get | Returned "nat option"

definition caller_step :: "nat \<Rightarrow> statics \<times> pc list \<Rightarrow> statics \<times> pc list" where
  "caller_step t cfg =
     (let s = fst cfg; pcs = snd cfg
      in if t < length pcs then
           (case pcs ! t of
              At_test \<Rightarrow> (s, pcs[t := (if static_instance s = None then At_new else At_get)])
            | At_new \<Rightarrow> (case new_listener s of (p, s') \<Rightarrow> (s', pcs[t := At_reset p]))
            | At_reset p \<Rightarrow> (reset_ptr p s, pcs[t := At_get])
            | At_get \<Rightarrow> (s, pcs[t := Returned (static_instance s)])
            | Returned r \<Rightarrow> (s, pcs))
         else (s, pcs))"

fun run :: "nat list \<Rightarrow> statics \<times> pc list \<Rightarrow> statics \<times> pc list" where
  "run [] cfg = cfg"
| "run (t # ts) cfg = run ts (caller_step t cfg)"

section \<open>Observations used in the statements\<close>

text \<open>What an operation added to the trace, given the world before and after it.\<close>

definition added :: "world \<Rightarrow> world \<Rightarrow> event list" where
  "added w w' = drop (length (trace w)) (trace w')"

fun is_write :: "event \<Rightarrow> bool" where
  "is_write (Sys_write _ _) = True"
| "is_write _ = False"

fun is_close :: "event \<Rightarrow> bool" where
  "is_close (Sys_close _) = True"
| "is_close _ = False"


fun is_bus_call :: "event \<Rightarrow> bool" where
  "is_bus_call (Bus_call _) = True"
| "is_bus_call _ = False"

fun is_signal :: "event \<Rightarrow> bool" where
  "is_signal (Bus_signal _ _ _ _) = True"
| "is_signal _ = False"

fun is_stderr :: "event \<Rightarrow> bool" where
  "is_stderr (Stderr _) = True"
| "is_stderr _ = False"

fun is_callback :: "event \<Rightarrow> bool" where
  "is_callback (MessageCallback _ _) = True"
| "is_callback (StatusCallback _) = True"
| "is_callback (ErrorCallback _) = True"
| "is_callback _ = False"



text \<open>
  A caller of \<open>instance()\<close> that has not built a listener of its own and, if it has
  returned, has returned the pointer \<open>p\<close>.
\<close>

definition settled :: "nat \<Rightarrow> pc \<Rightarrow> bool" where
  "settled p c = (c = At_test \<or> c = At_get \<or> c = Returned (Some p))"

text \<open>A connector whose connection flag is set has an open descriptor.\<close>

definition socket_open_if_connected :: "connector \<Rightarrow> bool" where
  "socket_open_if_connected c = (m_connected c \<longrightarrow> 0 \<le> m_socket c)"

text \<open>\<open>contains p s\<close>: the text \<open>p\<close> occurs in \<open>s\<close>.\<close>

fun contains :: "string \<Rightarrow> string \<Rightarrow> bool" where
  "contains p [] = (p = [])"
| "contains p (x # xs) = (take (length p) (x # xs) = p \<or> contains p xs)"

text \<open>
  The first step of the socket setup that the platform makes fail for a given interface
  name, with the error number it reports: descriptor creation, index lookup, or bind.
\<close>

datatype setup_step = Socket_create | Index_lookup | Bind

definition failing_step :: "env \<Rightarrow> string \<Rightarrow> (setup_step \<times> nat) option" where
  "failing_step e name =
     (case sys_socket e of
        Err n \<Rightarrow> Some (Socket_create, n)
      | Ok fd \<Rightarrow>
          (case sys_ioctl e (int fd) name of
             Err n \<Rightarrow> Some (Index_lookup, n)
           | Ok idx \<Rightarrow>
               (case sys_bind e (int fd) idx of
                  Err n \<Rightarrow> Some (Bind, n)
                | Ok _ \<Rightarrow> None)))"

subsection \<open>Concrete platforms and objects\<close>

definition strerror_linux :: "nat \<Rightarrow> string" where
  "strerror_linux n =
     (if n = 19 then ''No such device''
      else if n = 100 then ''Network is down''
      else if n = 105 then ''No buffer space available''
      else ''Unknown error'')"

text \<open>A platform on which only \<open>vcan0\<close> exists and every other call succeeds.\<close>

definition env_vcan0 :: env where
  "env_vcan0 =
     \<lparr>sys_socket = Ok 3,
      sys_ioctl = (\<lambda>fd name. if name = ''vcan0'' then Ok 4 else Err 19),
      sys_bind = (\<lambda>fd idx. Ok ()),
      sys_close = (\<lambda>fd. Ok ()),
      sys_write = (\<lambda>fd frame. Ok 16),
      strerror = strerror_linux,
      thread_create = True\<rparr>"

text \<open>The same platform with a transmit queue that is full: writes fail with \<open>ENOBUFS\<close>.\<close>

definition env_nobufs :: env where
  "env_nobufs = env_vcan0\<lparr>sys_write := (\<lambda>fd frame. Err 105)\<rparr>"

definition world0 :: world where
  "world0 = \<lparr>errno = 0, trace = []\<rparr>"

text \<open>A connector with an error callback, connected to \<open>vcan0\<close> on descriptor 3.\<close>

definition connected0 :: connector where
  "connected0 =
     (CANConnector ''vcan0'')
       \<lparr>m_socket := 3, m_connected := True, m_ifr_name := ''vcan0'', m_ifr_ifindex := 4,
        m_addr_can_family := AF_CAN, m_addr_can_ifindex := 4, m_errorCallback := True,
        m_readThread := Some True\<rparr>"


text \<open>A connector with an error callback, for an interface that does not exist.\<close>

definition missing_if :: connector where
  "missing_if = setErrorCallback (CANConnector ''vcan9'')"

definition payload8 :: "8 word list" where
  "payload8 = [1, 2, 3, 4, 5, 6, 7, 8]"

definition payload9 :: "8 word list" where
  "payload9 = replicate 9 0xFF"

text \<open>A platform without any CAN interface: every index lookup fails with \<open>ENODEV\<close>.\<close>

definition env_down :: env where
  "env_down = env_vcan0\<lparr>sys_ioctl := (\<lambda>fd name. Err 19)\<rparr>"

text \<open>
  Connectors with an error callback whose interface names do not fit \<open>ifr_name\<close>: the
  17-character name that the repository's test of an invalid interface passes, and a name
  of 130 characters.
\<close>

definition test_name_if :: connector where
  "test_name_if = setErrorCallback (CANConnector ''invalid_interface'')"

definition long_name_if :: connector where
  "long_name_if = setErrorCallback (CANConnector (replicate 130 CHR ''a''))"



definition bus_ok :: bus where
  "bus_ok = (\<lambda>n. None)"


text \<open>A bus that refuses the emission of a signal with an \<open>sdbus::Error\<close>.\<close>

definition bus_emit_fails :: bus where
  "bus_emit_fails = (\<lambda>n. if n = ''emitSignal'' then Some (Sdbus_error ''no reply'') else None)"

text \<open>The listener and the world after a \<open>start\<close> whose \<open>connect\<close> failed.\<close>

definition after_failed_start :: "listener \<times> world" where
  "after_failed_start = snd (start env_down bus_ok (CANListener, world0))"

text \<open>The static storage after the first call of \<open>instance()\<close> has returned.\<close>

definition statics1 :: statics where
  "statics1 = \<lparr>static_instance = Some 1, constructed = [1], destroyed = []\<rparr>"


section \<open>Basic facts about the trace\<close>

lemma added_emit [simp]: "added w (emit ev w) = [ev]"
  by (simp add: added_def emit_def)

lemma added_refl [simp]: "added w w = []"
  by (simp add: added_def)

section \<open>A connected connector has an open descriptor\<close>

text \<open>
  The invariant holds for a new connector and is kept by every member function that
  changes the connector, also when \<open>connect\<close> is left by an exception.
\<close>

lemma CANConnector_socket_open: "socket_open_if_connected (CANConnector name)"
  by (simp add: socket_open_if_connected_def CANConnector_def)

lemma setupSocket_socket_open:
  "fst (setupSocket e (c, w)) = Inr True \<Longrightarrow> 0 \<le> m_socket (fst (snd (setupSocket e (c, w))))"
  by (simp add: setupSocket_def Let_def retval_def retcode_def split: if_splits sysret.splits)

lemma setupSocket_connected:
  "m_connected (fst (snd (setupSocket e (c, w)))) = m_connected c"
  by (simp add: setupSocket_def Let_def)

lemma connect_socket_open:
  "socket_open_if_connected c \<Longrightarrow> socket_open_if_connected (fst (snd (connect e (c, w))))"
  using setupSocket_socket_open [of e c w] setupSocket_connected [of e c w]
  by (auto simp add: connect_def socket_open_if_connected_def Let_def split: prod.splits sum.splits)

lemma disconnect_socket_open:
  "socket_open_if_connected (fst (disconnect e (c, w)))"
  by (simp add: disconnect_def cleanupSocket_def socket_open_if_connected_def Let_def
        split: prod.splits)

lemma sendMessage_socket_open:
  "socket_open_if_connected c \<Longrightarrow>
   socket_open_if_connected (fst (snd (sendMessage e canId dat (c, w))))"
  by (simp add: sendMessage_def Let_def)

section \<open>Sending\<close>

text \<open>
  C1 (as amended). A payload of more than 8 bytes makes \<open>sendMessage\<close> return false
  without any write. A payload of exactly 8 bytes on a connected connector (flag set,
  descriptor open) leads to exactly one write, of the frame built from the identifier and
  the payload, and \<open>sendMessage\<close> returns true exactly when that write reports the whole
  frame, 16 bytes, as written.
\<close>

theorem sendMessage_size_boundary:
  "(CAN_MAX_DLEN < length dat \<longrightarrow>
      \<not> fst (sendMessage e canId dat (c, w))
      \<and> filter is_write (added w (snd (snd (sendMessage e canId dat (c, w))))) = [])
   \<and> (length dat = 8 \<and> m_connected c \<and> 0 \<le> m_socket c \<longrightarrow>
        filter is_write (added w (snd (snd (sendMessage e canId dat (c, w)))))
          = [Sys_write (m_socket c) \<lparr>can_id = canId, can_dlc = 8, data = dat\<rparr>]
        \<and> (fst (sendMessage e canId dat (c, w))
             \<longleftrightarrow> sys_write e (m_socket c) \<lparr>can_id = canId, can_dlc = 8, data = dat\<rparr> = Ok 16))"
  by (auto simp add: sendMessage_def Let_def CAN_MAX_DLEN_def sizeof_can_frame_def retval_def
        added_def error_cb_def emit_def syscall_def split: if_splits sysret.splits)

theorem sendMessage_size_boundary_witness:
  "CAN_MAX_DLEN < length payload9
   \<and> \<not> fst (sendMessage env_vcan0 0x123 payload9 (connected0, world0))
   \<and> length payload8 = 8 \<and> m_connected connected0 \<and> 0 \<le> m_socket connected0
   \<and> fst (sendMessage env_vcan0 0x123 payload8 (connected0, world0))"
proof -
  have h9: "CAN_MAX_DLEN < length payload9"
    by (simp add: CAN_MAX_DLEN_def payload9_def)
  have h8: "length payload8 = 8 \<and> m_connected connected0 \<and> 0 \<le> m_socket connected0"
    by (simp add: payload8_def connected0_def CANConnector_def)
  have w: "sys_write env_vcan0 (m_socket connected0) \<lparr>can_id = 0x123, can_dlc = 8, data = payload8\<rparr> = Ok 16"
    by (simp add: env_vcan0_def)
  show ?thesis
    using sendMessage_size_boundary [where dat = payload9 and e = env_vcan0 and canId = "0x123" and c = connected0 and w = world0]
      sendMessage_size_boundary [where dat = payload8 and e = env_vcan0 and canId = "0x123" and c = connected0 and w = world0] h9 h8 w
    by blast
qed

text \<open>
  The claim as written fails: a connected connector, a payload of exactly 8 bytes, and a
  write that the kernel refuses with \<open>ENOBUFS\<close>; \<open>sendMessage\<close> returns false.
\<close>

theorem sendMessage_full_frame_write_fails:
  "isConnected connected0 \<and> length payload8 = 8
   \<and> sendMessage env_nobufs 0x123 payload8 (connected0, world0)
       = (False, connected0,
          \<lparr>errno = 105,
           trace = [Sys_write 3 \<lparr>can_id = 0x123, can_dlc = 8, data = payload8\<rparr>,
                    ErrorCallback ''Failed to send CAN message: No buffer space available'']\<rparr>)"
  by (simp add: isConnected_def connected0_def CANConnector_def payload8_def sendMessage_def
        env_nobufs_def env_vcan0_def world0_def CAN_MAX_DLEN_def sizeof_can_frame_def retval_def
        syscall_def error_cb_def emit_def strerror_linux_def AF_CAN_def)

text \<open>
  C9. The connectivity check comes first: on a connector that is not connected,
  \<open>sendMessage\<close> returns false, changes nothing, and the only thing it does is to hand
  "CAN socket not connected" to the error callback (when one is registered), whatever the
  length of the payload. An error message that starts with "Data too large" is produced
  only on a connected connector, for a payload of more than 8 bytes.
\<close>

theorem sendMessage_connectivity_first:
  "(\<not> isConnected c \<longrightarrow>
      sendMessage e canId dat (c, w) = (False, c, error_cb c ''CAN socket not connected'' w)
      \<and> added w (error_cb c ''CAN socket not connected'' w)
          = (if m_errorCallback c then [ErrorCallback ''CAN socket not connected''] else []))
   \<and> (ErrorCallback msg \<in> set (added w (snd (snd (sendMessage e canId dat (c, w)))))
        \<and> take 14 msg = ''Data too large'' \<longrightarrow> isConnected c \<and> CAN_MAX_DLEN < length dat)"
  by (auto simp add: sendMessage_def isConnected_def Let_def CAN_MAX_DLEN_def added_def
        error_cb_def emit_def syscall_def split: if_splits)

theorem sendMessage_connectivity_first_witness:
  "\<not> isConnected missing_if \<and> CAN_MAX_DLEN < length payload9
   \<and> sendMessage env_vcan0 0x123 payload9 (missing_if, world0)
       = (False, missing_if, \<lparr>errno = 0, trace = [ErrorCallback ''CAN socket not connected'']\<rparr>)
   \<and> ErrorCallback ''Data too large: 9 bytes (max: 8)''
       \<in> set (added world0 (snd (snd (sendMessage env_vcan0 0x123 payload9 (connected0, world0)))))
   \<and> take 14 ''Data too large: 9 bytes (max: 8)'' = ''Data too large''
   \<and> isConnected connected0"
proof -
  have h: "\<not> isConnected missing_if"
    by (simp add: isConnected_def missing_if_def setErrorCallback_def CANConnector_def)
  have l: "CAN_MAX_DLEN < length payload9"
    by (simp add: CAN_MAX_DLEN_def payload9_def)
  have r: "error_cb missing_if ''CAN socket not connected'' world0
             = \<lparr>errno = 0, trace = [ErrorCallback ''CAN socket not connected'']\<rparr>"
    by (simp add: error_cb_def missing_if_def setErrorCallback_def CANConnector_def emit_def world0_def)
  have t: "to_string 9 = ''9''" "to_string CAN_MAX_DLEN = ''8''"
    by (simp_all add: to_string.simps CAN_MAX_DLEN_def)
  have m: "ErrorCallback ''Data too large: 9 bytes (max: 8)''
       \<in> set (added world0 (snd (snd (sendMessage env_vcan0 0x123 payload9 (connected0, world0)))))
     \<and> take 14 ''Data too large: 9 bytes (max: 8)'' = ''Data too large''"
    using t by (simp add: sendMessage_def connected0_def CANConnector_def payload9_def
          CAN_MAX_DLEN_def error_cb_def)
  from sendMessage_connectivity_first [where c = missing_if and e = env_vcan0 and canId = "0x123"
      and dat = payload9 and w = world0] h
  have first: "sendMessage env_vcan0 0x123 payload9 (missing_if, world0)
          = (False, missing_if, error_cb missing_if ''CAN socket not connected'' world0)"
    by blast
  from sendMessage_connectivity_first [where c = connected0 and e = env_vcan0 and canId = "0x123"
      and dat = payload9 and w = world0 and msg = "''Data too large: 9 bytes (max: 8)''"] m
  have second: "isConnected connected0"
    by blast
  from h l r m first second show ?thesis
    by simp
qed

section \<open>Changing the interface name\<close>

text \<open>
  C10. \<open>setInterfaceName\<close> with the name the connector already has returns at once: the
  connector (connection state, descriptor, stored name and all other members) and the
  world (no system call, no callback, no output) are what they were.
\<close>

theorem setInterfaceName_same_name:
  "setInterfaceName e (m_interfaceName c) (c, w) = (Inr (), c, w)"
  by (simp add: setInterfaceName_def)

section \<open>Connecting\<close>

text \<open>
  For a connector whose interface name fits \<open>ifr_name\<close>: when it is connected,
  \<open>connect\<close> returns true and touches neither the connector nor the world; when a setup
  step fails, \<open>connect\<close> returns false, the connector is not connected, its descriptor is
  \<open>-1\<close>, the descriptor that was created (if any) has been closed, the error callback
  (when one is registered) is the only callback that fires, and no reader thread is
  started. A failing descriptor creation gives the same for every name.
\<close>

lemma connect_clean_failure_name_fits:
  "(m_connected c \<longrightarrow> connect e (c, w) = (Inr True, c, w))
   \<and> (\<not> m_connected c \<and> failing_step e (c_str (m_interfaceName c)) = Some (st, n)
        \<and> (st = Socket_create \<or> length (c_str (m_interfaceName c)) < IFNAMSIZ) \<longrightarrow>
        (case connect e (c, w) of (r, c', w') \<Rightarrow>
           r = Inr False \<and> \<not> isConnected c' \<and> m_socket c' = - 1
           \<and> m_readThread c' = m_readThread c
           \<and> filter is_close (added w w')
               = (case sys_socket e of Ok fd \<Rightarrow> [Sys_close (int fd)] | Err _ \<Rightarrow> [])
           \<and> filter is_callback (added w w')
               = (if m_errorCallback c
                  then [ErrorCallback (''Failed to setup CAN socket: '' @ strerror e (errno w'))]
                  else [])
           \<and> Thread_start Read_thread \<notin> set (added w w')))"
  by (auto simp add: connect_def setupSocket_def failing_step_def isConnected_def Let_def
        retval_def retcode_def added_def error_cb_def emit_def syscall_def
        split: if_splits sysret.splits)

text \<open>
  A name of \<open>IFNAMSIZ\<close> or more characters, on a platform that creates the descriptor:
  the copy into \<open>ifr_name\<close> runs past the array before any lookup is made.
\<close>

lemma connect_name_too_long:
  "\<not> m_connected c \<and> sys_socket e = Ok fd \<and> IFNAMSIZ \<le> length (c_str (m_interfaceName c)) \<longrightarrow>
     connect e (c, w) = (Inl Buffer_overflow, c\<lparr>m_socket := int fd\<rparr>, syscall Sys_socket (sys_socket e) w)"
  by (simp add: connect_def setupSocket_def Let_def retval_def)

text \<open>
  C3. What the claim states is what \<open>connect\<close> does for names that fit (above), and the
  repository's test of an invalid interface expects it for a 17-character name. At that
  name, and at a name of 130 characters, \<open>connect\<close> creates the descriptor and then
  copies the name past the end of \<open>ifr_name\<close>: no lookup is made, the descriptor stays
  open, no error callback is fired, and the behaviour of the program is undefined from
  there.
\<close>

theorem connect_overflows_ifr_name:
  "length (c_str (m_interfaceName test_name_if)) = 17
   \<and> connect env_vcan0 (test_name_if, world0)
       = (Inl Buffer_overflow, test_name_if\<lparr>m_socket := 3\<rparr>, \<lparr>errno = 0, trace = [Sys_socket]\<rparr>)
   \<and> length (c_str (m_interfaceName long_name_if)) = 130
   \<and> connect env_vcan0 (long_name_if, world0)
       = (Inl Buffer_overflow, long_name_if\<lparr>m_socket := 3\<rparr>, \<lparr>errno = 0, trace = [Sys_socket]\<rparr>)"
proof -
  have c: "c_str (replicate 130 CHR ''a'') = replicate 130 CHR ''a''"
    by (simp add: c_str_def takeWhile_eq_all_conv)
  have t: "c_str ''invalid_interface'' = ''invalid_interface''"
    by (simp add: c_str_def)
  show ?thesis
    by (simp add: c t test_name_if_def long_name_if_def setErrorCallback_def CANConnector_def
          connect_def setupSocket_def env_vcan0_def world0_def retval_def syscall_def IFNAMSIZ_def)
qed

text \<open>
  C7 (as amended). When a setup step fails, an error callback is registered, and the
  interface name fits \<open>ifr_name\<close> (or the failing step is the creation of the
  descriptor), the callback receives the fixed text "Failed to setup CAN socket: "
  followed by the system's text for \<open>errno\<close>: the error number of the failing step,
  unless closing the descriptor fails as well and overwrites it. The message is the same
  for every interface name and tells the failing step only through that error text.
\<close>

theorem connect_failure_message:
  "\<not> m_connected c \<and> m_errorCallback c
   \<and> failing_step e (c_str (m_interfaceName c)) = Some (st, n)
   \<and> (st = Socket_create \<or> length (c_str (m_interfaceName c)) < IFNAMSIZ) \<longrightarrow>
     filter is_callback (added w (snd (snd (connect e (c, w)))))
       = [ErrorCallback (''Failed to setup CAN socket: '' @ strerror e
            (case st of
               Socket_create \<Rightarrow> n
             | _ \<Rightarrow> (case sys_close e (retval (sys_socket e)) of Err m \<Rightarrow> m | Ok _ \<Rightarrow> n)))]"
  by (auto simp add: connect_def setupSocket_def failing_step_def Let_def
        retval_def retcode_def added_def error_cb_def emit_def syscall_def
        split: if_splits sysret.splits)

theorem connect_failure_message_witness:
  "\<not> m_connected missing_if \<and> m_errorCallback missing_if
   \<and> failing_step env_vcan0 (c_str (m_interfaceName missing_if)) = Some (Index_lookup, 19)
   \<and> length (c_str (m_interfaceName missing_if)) < IFNAMSIZ
   \<and> filter is_callback (added world0 (snd (snd (connect env_vcan0 (missing_if, world0)))))
       = [ErrorCallback ''Failed to setup CAN socket: No such device'']"
proof -
  have b: "\<not> m_connected missing_if \<and> m_errorCallback missing_if"
    by (simp add: missing_if_def setErrorCallback_def CANConnector_def)
  have f: "failing_step env_vcan0 (c_str (m_interfaceName missing_if)) = Some (Index_lookup, 19)"
    by (simp add: failing_step_def env_vcan0_def missing_if_def setErrorCallback_def
          CANConnector_def c_str_def)
  have k: "length (c_str (m_interfaceName missing_if)) < IFNAMSIZ"
    by (simp add: missing_if_def setErrorCallback_def CANConnector_def c_str_def IFNAMSIZ_def)
  have t: "strerror env_vcan0
             (case Index_lookup of
                Socket_create \<Rightarrow> 19
              | _ \<Rightarrow> (case sys_close env_vcan0 (retval (sys_socket env_vcan0)) of
                         Err m \<Rightarrow> m | Ok _ \<Rightarrow> 19))
           = ''No such device''"
    by (simp add: env_vcan0_def strerror_linux_def)
  from connect_failure_message [where c = missing_if and e = env_vcan0 and st = Index_lookup
      and n = 19 and w = world0] b f k
  have "filter is_callback (added world0 (snd (snd (connect env_vcan0 (missing_if, world0)))))
       = [ErrorCallback (''Failed to setup CAN socket: '' @ strerror env_vcan0
            (case Index_lookup of
               Socket_create \<Rightarrow> 19
             | _ \<Rightarrow> (case sys_close env_vcan0 (retval (sys_socket env_vcan0)) of
                        Err m \<Rightarrow> m | Ok _ \<Rightarrow> 19)))]"
    by blast
  with b f k t show ?thesis by simp
qed

text \<open>
  The claim as written fails: the lookup of the interface \<open>vcan9\<close> fails, and the message
  handed to the error callback does not contain the interface name.
\<close>

theorem connect_failure_message_without_interface:
  "interfaceName missing_if = ''vcan9''
   \<and> trace (snd (snd (connect env_vcan0 (missing_if, world0))))
       = [Sys_socket, Sys_ioctl 3 ''vcan9'', Sys_close 3,
          ErrorCallback ''Failed to setup CAN socket: No such device'']
   \<and> \<not> contains ''vcan9'' ''Failed to setup CAN socket: No such device''"
  by (simp add: interfaceName_def missing_if_def setErrorCallback_def CANConnector_def
        connect_def setupSocket_def env_vcan0_def world0_def retval_def retcode_def
        syscall_def error_cb_def emit_def strerror_linux_def c_str_def IFNAMSIZ_def)

section \<open>The reader loop\<close>









section \<open>The listener: frames, bus operations, teardown\<close>

text \<open>
  C4 (as amended). For every received frame the handler publishes the frame first and
  consults the routing step after that. The routing step knows two ranges: an identifier
  from \<open>0x100\<close> to \<open>0x1FF\<close> adds the engine line to the log, one from \<open>0x200\<close> to
  \<open>0x2FF\<close> the transmission line, and every other identifier, \<open>0x300\<close> to \<open>0x4FF\<close>
  included, adds nothing. Whatever the identifier: when the bus object exists and the bus
  accepts the emission, the frame is published once as \<open>CANMessageReceived\<close> with its
  identifier and payload as received; when there is no bus object, nothing is published;
  when the bus refuses the emission with an \<open>sdbus::Error\<close>, the error is logged and
  nothing is published. In all three cases the routing step and the final log line
  follow, the handler returns normally, and the listener is unchanged.
\<close>

theorem onCANMessageReceived_routing:
  "(m_dbusObject l \<and> b ''createSignal'' = None \<and> b ''emitSignal'' = None \<longrightarrow>
      onCANMessageReceived b ts canId dat (l, w)
        = (Inr (), l,
           w\<lparr>trace := trace w
              @ [Bus_call ''createSignal'', Bus_call ''emitSignal'',
                 Bus_signal ''CANMessageReceived'' canId dat ts,
                 Stdout (''Emitted D-Bus signal CANMessageReceived with canId=0x''
                         @ to_hex (unat canId))]
              @ (if 0x100 \<le> canId \<and> canId \<le> 0x1FF
                 then [Stdout (''Forwarding engine message to ECU - ID: 0x'' @ to_hex (unat canId))]
                 else if 0x200 \<le> canId \<and> canId \<le> 0x2FF
                 then [Stdout (''Forwarding transmission message to ECU - ID: 0x''
                               @ to_hex (unat canId))]
                 else [])
              @ [Stdout (''CAN message received - ID: 0x'' @ to_hex (unat canId) @ '' Data: ''
                         @ concat (map printf_02X dat))]\<rparr>))
   \<and> (\<not> m_dbusObject l \<longrightarrow>
      onCANMessageReceived b ts canId dat (l, w)
        = (Inr (), l,
           w\<lparr>trace := trace w
              @ (if 0x100 \<le> canId \<and> canId \<le> 0x1FF
                 then [Stdout (''Forwarding engine message to ECU - ID: 0x'' @ to_hex (unat canId))]
                 else if 0x200 \<le> canId \<and> canId \<le> 0x2FF
                 then [Stdout (''Forwarding transmission message to ECU - ID: 0x''
                               @ to_hex (unat canId))]
                 else [])
              @ [Stdout (''CAN message received - ID: 0x'' @ to_hex (unat canId) @ '' Data: ''
                         @ concat (map printf_02X dat))]\<rparr>))
   \<and> (m_dbusObject l
        \<and> (b ''createSignal'' = Some (Sdbus_error m)
             \<or> b ''createSignal'' = None \<and> b ''emitSignal'' = Some (Sdbus_error m)) \<longrightarrow>
      onCANMessageReceived b ts canId dat (l, w)
        = (Inr (), l,
           w\<lparr>trace := trace w
              @ (if b ''createSignal'' = None
                 then [Bus_call ''createSignal'', Bus_call ''emitSignal'']
                 else [Bus_call ''createSignal''])
              @ [Stderr (''Error emitting CAN message signal: '' @ m)]
              @ (if 0x100 \<le> canId \<and> canId \<le> 0x1FF
                 then [Stdout (''Forwarding engine message to ECU - ID: 0x'' @ to_hex (unat canId))]
                 else if 0x200 \<le> canId \<and> canId \<le> 0x2FF
                 then [Stdout (''Forwarding transmission message to ECU - ID: 0x''
                               @ to_hex (unat canId))]
                 else [])
              @ [Stdout (''CAN message received - ID: 0x'' @ to_hex (unat canId) @ '' Data: ''
                         @ concat (map printf_02X dat))]\<rparr>))"
proof -
  have accepted: "m_dbusObject l \<and> b ''createSignal'' = None \<and> b ''emitSignal'' = None \<longrightarrow>
      onCANMessageReceived b ts canId dat (l, w)
        = (Inr (), l,
           w\<lparr>trace := trace w
              @ [Bus_call ''createSignal'', Bus_call ''emitSignal'',
                 Bus_signal ''CANMessageReceived'' canId dat ts,
                 Stdout (''Emitted D-Bus signal CANMessageReceived with canId=0x''
                         @ to_hex (unat canId))]
              @ (if 0x100 \<le> canId \<and> canId \<le> 0x1FF
                 then [Stdout (''Forwarding engine message to ECU - ID: 0x'' @ to_hex (unat canId))]
                 else if 0x200 \<le> canId \<and> canId \<le> 0x2FF
                 then [Stdout (''Forwarding transmission message to ECU - ID: 0x''
                               @ to_hex (unat canId))]
                 else [])
              @ [Stdout (''CAN message received - ID: 0x'' @ to_hex (unat canId) @ '' Data: ''
                         @ concat (map printf_02X dat))]\<rparr>)"
    by (simp add: onCANMessageReceived_def forwardCANMessageToECU_def Let_def emit_def)
  have no_object: "\<not> m_dbusObject l \<longrightarrow>
      onCANMessageReceived b ts canId dat (l, w)
        = (Inr (), l,
           w\<lparr>trace := trace w
              @ (if 0x100 \<le> canId \<and> canId \<le> 0x1FF
                 then [Stdout (''Forwarding engine message to ECU - ID: 0x'' @ to_hex (unat canId))]
                 else if 0x200 \<le> canId \<and> canId \<le> 0x2FF
                 then [Stdout (''Forwarding transmission message to ECU - ID: 0x''
                               @ to_hex (unat canId))]
                 else [])
              @ [Stdout (''CAN message received - ID: 0x'' @ to_hex (unat canId) @ '' Data: ''
                         @ concat (map printf_02X dat))]\<rparr>)"
    by (simp add: onCANMessageReceived_def forwardCANMessageToECU_def Let_def emit_def)
  have refused: "m_dbusObject l
        \<and> (b ''createSignal'' = Some (Sdbus_error m)
             \<or> b ''createSignal'' = None \<and> b ''emitSignal'' = Some (Sdbus_error m)) \<longrightarrow>
      onCANMessageReceived b ts canId dat (l, w)
        = (Inr (), l,
           w\<lparr>trace := trace w
              @ (if b ''createSignal'' = None
                 then [Bus_call ''createSignal'', Bus_call ''emitSignal'']
                 else [Bus_call ''createSignal''])
              @ [Stderr (''Error emitting CAN message signal: '' @ m)]
              @ (if 0x100 \<le> canId \<and> canId \<le> 0x1FF
                 then [Stdout (''Forwarding engine message to ECU - ID: 0x'' @ to_hex (unat canId))]
                 else if 0x200 \<le> canId \<and> canId \<le> 0x2FF
                 then [Stdout (''Forwarding transmission message to ECU - ID: 0x''
                               @ to_hex (unat canId))]
                 else [])
              @ [Stdout (''CAN message received - ID: 0x'' @ to_hex (unat canId) @ '' Data: ''
                         @ concat (map printf_02X dat))]\<rparr>)"
    by (auto simp add: onCANMessageReceived_def forwardCANMessageToECU_def Let_def emit_def)
  from accepted no_object refused show ?thesis
    by blast
qed

theorem onCANMessageReceived_routing_witness:
  "m_dbusObject (fst after_failed_start)
   \<and> bus_ok ''createSignal'' = None \<and> bus_ok ''emitSignal'' = None
   \<and> onCANMessageReceived bus_ok 1000 0x123 [1, 2] (fst after_failed_start, world0)
       = (Inr (), fst after_failed_start,
          \<lparr>errno = 0,
           trace = [Bus_call ''createSignal'', Bus_call ''emitSignal'',
                    Bus_signal ''CANMessageReceived'' 0x123 [1, 2] 1000,
                    Stdout ''Emitted D-Bus signal CANMessageReceived with canId=0x123'',
                    Stdout ''Forwarding engine message to ECU - ID: 0x123'',
                    Stdout ''CAN message received - ID: 0x123 Data: 01 02 '']\<rparr>)
   \<and> \<not> m_dbusObject CANListener
   \<and> onCANMessageReceived bus_ok 1000 0x300 [1, 2] (CANListener, world0)
       = (Inr (), CANListener,
          \<lparr>errno = 0, trace = [Stdout ''CAN message received - ID: 0x300 Data: 01 02 '']\<rparr>)
   \<and> bus_emit_fails ''createSignal'' = None
   \<and> bus_emit_fails ''emitSignal'' = Some (Sdbus_error ''no reply'')
   \<and> onCANMessageReceived bus_emit_fails 1000 0x200 [1, 2] (fst after_failed_start, world0)
       = (Inr (), fst after_failed_start,
          \<lparr>errno = 0,
           trace = [Bus_call ''createSignal'', Bus_call ''emitSignal'',
                    Stderr ''Error emitting CAN message signal: no reply'',
                    Stdout ''Forwarding transmission message to ECU - ID: 0x200'',
                    Stdout ''CAN message received - ID: 0x200 Data: 01 02 '']\<rparr>)"
proof -
  have o: "m_dbusObject (fst after_failed_start)"
    by (simp add: after_failed_start_def start_def setupDBusInterface_def bus_ok_def env_down_def
          env_vcan0_def connect_def setupSocket_def CANListener_def CANConnector_def
          setMessageCallback_def setStatusCallback_def setErrorCallback_def retval_def retcode_def
          Let_def c_str_def IFNAMSIZ_def)
  have n: "\<not> m_dbusObject CANListener"
    by (simp add: CANListener_def)
  have k: "bus_ok ''createSignal'' = None" "bus_ok ''emitSignal'' = None"
    "bus_emit_fails ''createSignal'' = None"
    "bus_emit_fails ''emitSignal'' = Some (Sdbus_error ''no reply'')"
    by (simp_all add: bus_ok_def bus_emit_fails_def)
  have h: "to_hex (unat (0x123 :: 32 word)) = ''123''"
    "to_hex (unat (0x300 :: 32 word)) = ''300''"
    "to_hex (unat (0x200 :: 32 word)) = ''200''"
    by (simp_all add: to_hex.simps)
  have p: "concat (map printf_02X [1, 2]) = ''01 02 ''"
    by (simp add: printf_02X_def)
  show ?thesis
    using onCANMessageReceived_routing [where l = "fst after_failed_start" and b = bus_ok
        and ts = 1000 and canId = "0x123" and dat = "[1, 2]" and w = world0]
      onCANMessageReceived_routing [where l = CANListener and b = bus_ok
        and ts = 1000 and canId = "0x300" and dat = "[1, 2]" and w = world0]
      onCANMessageReceived_routing [where l = "fst after_failed_start" and b = bus_emit_fails
        and ts = 1000 and canId = "0x200" and dat = "[1, 2]" and w = world0
        and m = "''no reply''"]
      o n k h p
    by (simp add: world0_def)
qed

text \<open>
  The claim as written fails: frames with the identifiers \<open>0x300\<close> and \<open>0x400\<close> pass
  through the forwarding step without any category being applied to them.
\<close>

theorem forwardCANMessageToECU_no_body_safety:
  "forwardCANMessageToECU 0x300 [6, 7, 8, 9] world0 = world0
   \<and> forwardCANMessageToECU 0x400 [10, 11, 12, 13, 14] world0 = world0"
  by (simp add: forwardCANMessageToECU_def)

lemma trace_emit [simp]: "trace (emit ev w) = trace w @ [ev]"
  by (simp add: emit_def)

lemma errno_emit [simp]: "errno (emit ev w) = errno w"
  by (simp add: emit_def)


lemma disconnect_state:
  "fst (disconnect e (c, w))
     = (if m_connected c
        then c\<lparr>m_shouldStop := True,
               m_readThread := (if m_readThread c = Some True then Some False else m_readThread c),
               m_socket := (if 0 \<le> m_socket c then - 1 else m_socket c),
               m_connected := False\<rparr>
        else c)"
  by (simp add: disconnect_def cleanupSocket_def Let_def split: prod.splits)




lemma errno_guarded [simp]: "errno (guarded b n ws wt w) = errno w"
  by (simp add: guarded_def Let_def split: option.splits bus_exn.splits)

lemma stop_state:
  "fst (stop e b (l, w))
     = l\<lparr>m_canConnector :=
           fst (disconnect e (m_canConnector l, emit (Stdout ''Stopping CAN Listener service...'') w)),
         m_dbusConnection := False,
         m_dbusObject := (if m_dbusConnection l then False else m_dbusObject l),
         m_dbusThread := (if m_dbusConnection l then None else m_dbusThread l)\<rparr>"
  by (simp add: stop_def Let_def split: prod.splits)





lemma stop_result:
  "\<not> m_connected (m_canConnector (fst (stop e b (l, w))))
   \<and> \<not> m_dbusConnection (fst (stop e b (l, w)))"
  by (simp add: stop_state disconnect_state)






lemma connect_true_connected:
  "fst (connect e (c, w)) = Inr True \<Longrightarrow> m_connected (fst (snd (connect e (c, w))))"
  by (auto simp add: connect_def Let_def split: prod.splits sum.splits if_splits)

lemma sendMessage_connector:
  "fst (snd (sendMessage e canId dat (c, w))) = c"
  by (simp add: sendMessage_def Let_def)

text \<open>
  C6. \<open>SendCANMessage\<close> answers what \<open>sendMessage\<close> on the listener's connector answers
  for the same identifier and payload, with the same effects and no change to the
  listener. \<open>GetStatus\<close> answers "Connected" when \<open>isConnected\<close> holds at the call and
  "Disconnected" otherwise: after a \<open>stop\<close> it is "Disconnected", and on a connector that
  \<open>connect\<close> has just connected it is "Connected".
\<close>

theorem bus_operations_delegate:
  "fst (SendCANMessage e canId dat (l, w)) = fst (sendMessage e canId dat (m_canConnector l, w))
   \<and> snd (snd (SendCANMessage e canId dat (l, w)))
       = snd (snd (sendMessage e canId dat (m_canConnector l, w)))
   \<and> fst (snd (SendCANMessage e canId dat (l, w))) = l
   \<and> GetStatus l = (if isConnected (m_canConnector l) then ''Connected'' else ''Disconnected'')
   \<and> GetStatus (fst (stop e b (l, w))) = ''Disconnected''
   \<and> (fst (connect e (m_canConnector l, w)) = Inr True \<longrightarrow>
        GetStatus (l\<lparr>m_canConnector := fst (snd (connect e (m_canConnector l, w)))\<rparr>)
          = ''Connected'')"
proof -
  have keep: "fst (snd (SendCANMessage e canId dat (l, w))) = l"
    using sendMessage_connector [of e canId dat "m_canConnector l" w]
    by (auto simp add: SendCANMessage_def split: prod.splits)
  have stopped: "GetStatus (fst (stop e b (l, w))) = ''Disconnected''"
    using stop_result [of e b l w] by (simp add: GetStatus_def isConnected_def)
  have started: "fst (connect e (m_canConnector l, w)) = Inr True \<longrightarrow>
        GetStatus (l\<lparr>m_canConnector := fst (snd (connect e (m_canConnector l, w)))\<rparr>)
          = ''Connected''"
    using connect_true_connected [of e "m_canConnector l" w]
    by (simp add: GetStatus_def isConnected_def)
  from keep stopped started show ?thesis
    by (simp add: SendCANMessage_def GetStatus_def split: prod.splits)
qed

theorem bus_operations_delegate_witness:
  "GetStatus CANListener = ''Disconnected''
   \<and> fst (connect env_vcan0 (m_canConnector CANListener, world0)) = Inr True
   \<and> GetStatus (CANListener\<lparr>m_canConnector :=
                   fst (snd (connect env_vcan0 (m_canConnector CANListener, world0)))\<rparr>)
       = ''Connected''"
proof -
  have d: "\<not> isConnected (m_canConnector CANListener)"
    by (simp add: isConnected_def CANListener_def CANConnector_def setMessageCallback_def
          setStatusCallback_def setErrorCallback_def)
  have c: "fst (connect env_vcan0 (m_canConnector CANListener, world0)) = Inr True"
    by (simp add: connect_def setupSocket_def env_vcan0_def CANListener_def CANConnector_def
          setMessageCallback_def setStatusCallback_def setErrorCallback_def retval_def retcode_def
          Let_def c_str_def IFNAMSIZ_def)
  show ?thesis
    using bus_operations_delegate [where l = CANListener and e = env_vcan0 and w = world0] d c
    by simp
qed

section \<open>The process-wide instance\<close>

lemma instance_initialised:
  "static_instance s = Some p \<Longrightarrow> CANListener_instance s = (Some p, s)"
  by (simp add: CANListener_instance_def)

lemma instance_calls_initialised:
  "static_instance s = Some p \<Longrightarrow> instance_calls n s = (replicate n (Some p), s)"
  by (induction n) (simp_all add: instance_initialised)

lemma instance_first: "CANListener_instance statics0 = (Some 1, statics1)"
  by (simp add: CANListener_instance_def statics0_def statics1_def new_listener_def reset_ptr_def)

lemma settled_update:
  "list_all (settled p) pcs \<Longrightarrow> settled p x \<Longrightarrow> list_all (settled p) (pcs[t := x])"
  by (auto simp add: list_all_iff dest!: subsetD [OF set_update_subset_insert])

lemma caller_step_settled:
  assumes "static_instance s = Some p" and "list_all (settled p) pcs"
  shows "fst (caller_step t (s, pcs)) = s \<and> list_all (settled p) (snd (caller_step t (s, pcs)))"
proof (cases "t < length pcs")
  case False
  with assms show ?thesis by (simp add: caller_step_def)
next
  case True
  with assms(2) have "settled p (pcs ! t)"
    by (simp add: list_all_length)
  then consider "pcs ! t = At_test" | "pcs ! t = At_get" | "pcs ! t = Returned (Some p)"
    by (auto simp add: settled_def)
  then show ?thesis
  proof cases
    case 1
    have "list_all (settled p) (pcs[t := At_get])"
      using assms(2) by (rule settled_update) (simp add: settled_def)
    with 1 True assms(1) show ?thesis by (simp add: caller_step_def)
  next
    case 2
    have "list_all (settled p) (pcs[t := Returned (Some p)])"
      using assms(2) by (rule settled_update) (simp add: settled_def)
    with 2 True assms(1) show ?thesis by (simp add: caller_step_def)
  next
    case 3
    with True assms show ?thesis by (simp add: caller_step_def)
  qed
qed

lemma run_settled:
  "static_instance s = Some p \<Longrightarrow> list_all (settled p) pcs \<Longrightarrow>
   fst (run sched (s, pcs)) = s \<and> list_all (settled p) (snd (run sched (s, pcs)))"
proof (induction sched arbitrary: pcs)
  case Nil
  then show ?case by simp
next
  case (Cons t ts)
  obtain pcs' where st: "caller_step t (s, pcs) = (s, pcs')" and s': "list_all (settled p) pcs'"
    using caller_step_settled [OF Cons.prems, of t]
    by (cases "caller_step t (s, pcs)") auto
  show ?case
    using Cons.IH [OF Cons.prems(1) s'] by (simp add: st)
qed

text \<open>
  C8 (as amended). Calls of \<open>instance()\<close> made one after another all return the same
  non-null pointer, and one listener is constructed and none destroyed. Once the pointer
  is set, callers that enter at the same time, under any schedule, leave the static
  storage alone, and each of them that returns gets that pointer. The accessor has no
  synchronisation of its own, so nothing is stated for callers that race the first
  access.
\<close>

theorem instance_single_after_first_access:
  "instance_calls (Suc n) statics0 = (replicate (Suc n) (Some 1), statics1)
   \<and> constructed statics1 = [1] \<and> destroyed statics1 = []
   \<and> (static_instance s = Some p \<and> list_all (\<lambda>c. c = At_test) pcs \<longrightarrow>
        fst (run sched (s, pcs)) = s
        \<and> list_all (settled p) (snd (run sched (s, pcs))))"
proof -
  have s1: "static_instance statics1 = Some 1"
    by (simp add: statics1_def)
  have seq: "instance_calls (Suc n) statics0 = (replicate (Suc n) (Some 1), statics1)"
    by (simp add: instance_first instance_calls_initialised [OF s1])
  have conc: "static_instance s = Some p \<and> list_all (\<lambda>c. c = At_test) pcs \<longrightarrow>
        fst (run sched (s, pcs)) = s \<and> list_all (settled p) (snd (run sched (s, pcs)))"
  proof
    assume a: "static_instance s = Some p \<and> list_all (\<lambda>c. c = At_test) pcs"
    then have "list_all (settled p) pcs"
      by (simp add: list_all_iff settled_def)
    with a show "fst (run sched (s, pcs)) = s \<and> list_all (settled p) (snd (run sched (s, pcs)))"
      by (simp add: run_settled)
  qed
  from seq conc show ?thesis
    by (simp add: statics1_def)
qed

theorem instance_single_after_first_access_witness:
  "instance_calls 3 statics0 = ([Some 1, Some 1, Some 1], statics1)
   \<and> static_instance statics1 = Some 1 \<and> list_all (\<lambda>c. c = At_test) [At_test, At_test]
   \<and> run [0, 1, 1, 0] (statics1, [At_test, At_test])
       = (statics1, [Returned (Some 1), Returned (Some 1)])
   \<and> list_all (settled 1) (snd (run [0, 1, 1, 0] (statics1, [At_test, At_test])))"
proof -
  have a: "static_instance statics1 = Some 1 \<and> list_all (\<lambda>c. c = At_test) [At_test, At_test]"
    by (simp add: statics1_def)
  have r: "run [0, 1, 1, 0] (statics1, [At_test, At_test])
             = (statics1, [Returned (Some 1), Returned (Some 1)])"
    by (simp add: caller_step_def statics1_def)
  have n: "Suc (Suc (Suc 0)) = 3" "replicate 3 (Some (1::nat)) = [Some 1, Some 1, Some 1]"
    by (simp_all add: numeral_3_eq_3)
  show ?thesis
    using instance_single_after_first_access [where n = 2 and s = statics1 and p = 1
        and pcs = "[At_test, At_test]" and sched = "[0, 1, 1, 0]"] a r n
    by (simp add: numeral_2_eq_2)
qed

text \<open>
  The claim as written fails: two callers enter before the pointer is set, both find it
  null, and each constructs a listener. The first caller returns the first listener, which
  the second caller's \<open>reset\<close> then destroys; the second caller returns another pointer.
\<close>

theorem instance_first_access_race:
  "run [0, 1, 0, 0, 0, 1, 1, 1] (statics0, [At_test, At_test])
     = (\<lparr>static_instance = Some 2, constructed = [1, 2], destroyed = [1]\<rparr>,
        [Returned (Some 1), Returned (Some 2)])"
  by (simp add: caller_step_def statics0_def new_listener_def reset_ptr_def)

end
